theory Spec2Isabelle
  imports Main "HOL-Library.AList" "HOL-Library.Sublist"
begin

section \<open>The dev console of snowpack: \<open>commands/paint.ts\<close>\<close>

text \<open>
  The file exports two functions. \<open>getPort\<close> negotiates the port of the dev server;
  \<open>paint\<close> closes over a handful of variables (the dashboard), registers one listener per
  bus event and redraws the terminal after every event.

  Conventions of the embedding.
  \<^item> A JavaScript string is a \<^typ>\<open>string\<close>; a character beyond ASCII stands for the bytes
    of its UTF-8 encoding, as it reaches the terminal.
  \<^item> The functions of \<open>kleur/colors\<close> are kept symbolic: a piece of terminal text is a
    \<open>markup\<close> term, and a number printed inside a template literal is the leaf \<open>Num\<close>.
  \<^item> \<open>allWorkerStates\<close> is a plain object used as a dictionary. Its own properties are an
    association list in the order of \<open>Object.entries\<close>: array indices first, ascending,
    then the other names in the order of their creation. A read \<open>allWorkerStates[id]\<close>
    also finds the members the object inherits from \<open>Object.prototype\<close>.
  \<^item> A listener that throws is the result \<open>Inl TypeError\<close>; the dashboard is then as it was
    before the event.
  \<^item> \<open>detectPort\<close>, \<open>util.format\<close> and \<open>path.relative\<close> belong to other packages and are
    parameters.
\<close>

subsection \<open>JavaScript values\<close>

datatype 'a nullable = Undefined | Null | Value 'a

text \<open>Truthiness, for payloads whose defined values are objects (arrays, \<open>Error\<close>s).\<close>

fun truthy :: "'a nullable \<Rightarrow> bool" where
  "truthy (Value _) = True"
| "truthy _ = False"

definition js_or :: "'a nullable \<Rightarrow> 'a nullable \<Rightarrow> 'a nullable" where
  "js_or a b = (if truthy a then a else b)"

text \<open>\<open>typeof v\<close> for such a payload: always a string.\<close>

fun js_typeof :: "'a nullable \<Rightarrow> string" where
  "js_typeof Undefined = ''undefined''"
| "js_typeof _ = ''object''"

datatype js_error = TypeError

datatype markup =
    Str string
  | Num int
  | Bold markup
  | Underline markup
  | Dim markup
  | Red markup
  | Yellow markup
  | Cyan markup
  | Reset markup
  | Cat "markup list"

subsection \<open>\<open>getPort\<close>\<close>

text \<open>
  The regular expression \<open>/^no?$/i\<close>. The pattern is a term; \<open>rx_match r s\<close> lists the
  rests of \<open>s\<close> after every way of matching \<open>r\<close> at its start. With \<open>^\<close> and \<open>$\<close> and no
  \<open>m\<close> flag, \<open>test\<close> succeeds when some match consumes the whole input. Under the \<open>i\<close>
  flag two characters match when their canonical (upper-case) forms agree.
\<close>

datatype rx = Lit char | Opt rx | Seq rx rx

definition canonicalize :: "char \<Rightarrow> char" where
  "canonicalize c =
     (let n = (of_char c :: nat) in if 97 \<le> n \<and> n \<le> 122 then char_of (n - 32) else c)"

fun rx_match :: "rx \<Rightarrow> string \<Rightarrow> string list" where
  "rx_match (Lit c) [] = []"
| "rx_match (Lit c) (x # xs) = (if canonicalize x = canonicalize c then [xs] else [])"
| "rx_match (Opt r) s = rx_match r s @ [s]"
| "rx_match (Seq r1 r2) s = concat (map (rx_match r2) (rx_match r1 s))"

definition rx_test_anchored :: "rx \<Rightarrow> string \<Rightarrow> bool" where
  "rx_test_anchored r s = ([] \<in> set (rx_match r s))"

definition no_pattern :: rx where
  "no_pattern = Seq (Lit CHR ''n'') (Opt (Lit CHR ''o''))"

text \<open>The heavy cross of the fatal message, U+2718.\<close>

definition cross :: string where
  "cross = [CHR 0xE2, CHR 0x9C, CHR 0x98]"

definition port_question :: "int \<Rightarrow> int \<Rightarrow> markup" where
  "port_question defaultPort bestAvailablePort =
     Yellow (Cat [Str ''! Port '', Bold (Num defaultPort),
                  Str '' not available. Run on port '', Bold (Num bestAvailablePort),
                  Str '' instead? (Y/n) ''])"

definition port_fatal :: "int \<Rightarrow> markup" where
  "port_fatal defaultPort =
     Red (Cat [Str (cross @ '' Port ''), Bold (Num defaultPort),
               Str '' not available. Use '', Bold (Str ''--port''),
               Str '' to specify a different port.''])"

text \<open>
  What one call of \<open>getPort\<close> does: the questions it asked on standard output, and either
  the port it returned or the end of the process (\<open>console.error\<close> twice, then
  \<open>process.exit(1)\<close>).
\<close>

datatype port_result =
    Returned int
  | ProcessExit "markup list" int

text \<open>
  \<open>detectPort\<close> is the probe, \<open>isTTY\<close> is \<open>process.stdout.isTTY\<close>, and \<open>answer\<close> is the line
  the user types if the question is asked.
\<close>

definition getPort :: "(int \<Rightarrow> int) \<Rightarrow> bool \<Rightarrow> string \<Rightarrow> int \<Rightarrow> markup list \<times> port_result" where
  "getPort detectPort isTTY answer defaultPort =
     (let bestAvailablePort = detectPort defaultPort in
      if defaultPort \<noteq> bestAvailablePort then
        (let (asked, useNextPort) =
               (if isTTY
                then ([port_question defaultPort bestAvailablePort],
                      \<not> rx_test_anchored no_pattern answer)
                else ([], False)) in
         if \<not> useNextPort
         then (asked, ProcessExit [port_fatal defaultPort, Str []] 1)
         else (asked, Returned bestAvailablePort))
      else ([], Returned bestAvailablePort))"

subsection \<open>The dashboard\<close>

text \<open>
  The declared type of \<open>error\<close> is \<open>null | Error\<close>, but the bus is untyped and \<open>repaint\<close>
  asks \<open>Array.isArray\<close> of the stored value, so the payload may also be an array.
\<close>

datatype error_value = ErrorObject string | ArrayValue "string list"

fun isArray :: "error_value nullable \<Rightarrow> bool" where
  "isArray (Value (ArrayValue _)) = True"
| "isArray _ = False"

type_synonym phase = "string \<times> string"

record WorkerState =
  done' :: bool
  state :: "phase nullable"
  error :: "error_value nullable"
  output' :: string

definition WORKER_BASE_STATE :: WorkerState where
  "WORKER_BASE_STATE = \<lparr>done' = False, state = Null, error = Null, output' = []\<rparr>"

record MissingWebModule =
  id' :: string
  spec :: string
  pkgName :: string

text \<open>The \<open>data\<close> of a \<open>MISSING_WEB_MODULE\<close> event, when there is one.\<close>

datatype module_data = ModuleData string string

fun with_id :: "string \<Rightarrow> module_data \<Rightarrow> MissingWebModule" where
  "with_id i (ModuleData s p) = \<lparr>id' = i, spec = s, pkgName = p\<rparr>"

text \<open>
  The variables \<open>paint\<close> closes over. \<open>port\<close>, \<open>hostname\<close> and \<open>startTimeMs\<close> are declared
  without a value: \<open>None\<close> is \<open>undefined\<close>. \<open>allFileBuilds\<close> is a \<open>Set\<close>, kept without
  duplicates.
\<close>

record dashboard =
  port :: "int option"
  hostname :: "string option"
  protocol :: string
  startTimeMs :: "int option"
  ips :: "string list"
  consoleOutput :: string
  installOutput :: string
  isInstalling :: bool
  missingWebModule :: "MissingWebModule option"
  allWorkerStates :: "(string \<times> WorkerState) list"
  allFileBuilds :: "string list"

subsection \<open>The object \<open>allWorkerStates\<close>\<close>

text \<open>
  The members every plain object inherits from \<open>Object.prototype\<close>: eleven functions and the
  accessor \<open>__proto__\<close>. All of them read as truthy values.
\<close>

definition inherited_names :: "string list" where
  "inherited_names =
     [''constructor'', ''__defineGetter__'', ''__defineSetter__'', ''hasOwnProperty'',
      ''__lookupGetter__'', ''__lookupSetter__'', ''isPrototypeOf'', ''propertyIsEnumerable'',
      ''toString'', ''valueOf'', ''toLocaleString'', ''__proto__'']"

definition ordinary_name :: "string \<Rightarrow> bool" where
  "ordinary_name i = (i \<notin> set inherited_names)"

text \<open>
  A property name is an array index when it is the canonical decimal form of a number
  below \<open>2^32 - 1\<close>. \<open>Object.entries\<close> lists the array indices first, in ascending order,
  and the other names after them, in the order of their creation.
\<close>

definition is_digit :: "char \<Rightarrow> bool" where
  "is_digit c = (48 \<le> (of_char c :: nat) \<and> (of_char c :: nat) \<le> 57)"

definition decimal :: "string \<Rightarrow> int" where
  "decimal s = foldl (\<lambda>n c. 10 * n + (of_char c - 48)) 0 s"

definition array_index :: "string \<Rightarrow> int option" where
  "array_index s =
     (if s \<noteq> [] \<and> list_all is_digit s \<and> (if hd s = CHR ''0'' then length s = 1 else True)
         \<and> decimal s < 4294967295
      then Some (decimal s) else None)"

definition comes_before :: "string \<Rightarrow> string \<Rightarrow> bool" where
  "comes_before k k' =
     (case array_index k of
        None \<Rightarrow> False
      | Some n \<Rightarrow> (case array_index k' of None \<Rightarrow> True | Some m \<Rightarrow> n < m))"

fun insert_entry :: "string \<Rightarrow> 'v \<Rightarrow> (string \<times> 'v) list \<Rightarrow> (string \<times> 'v) list" where
  "insert_entry k v [] = [(k, v)]"
| "insert_entry k v (p # ps) =
     (if comes_before k (fst p) then (k, v) # p # ps else p # insert_entry k v ps)"

text \<open>
  The assignment \<open>object[k] = v\<close>. An own property keeps its place and takes the value. A
  new property takes its place in the order above, except for \<open>__proto__\<close>: that
  assignment runs the inherited setter, which replaces the prototype and creates no own
  property.
\<close>

definition set_entry :: "string \<Rightarrow> 'v \<Rightarrow> (string \<times> 'v) list \<Rightarrow> (string \<times> 'v) list" where
  "set_entry k v ps =
     (if map_of ps k \<noteq> None then AList.update k v ps
      else if k = ''__proto__'' then ps
      else insert_entry k v ps)"

text \<open>
  The read \<open>allWorkerStates[id]\<close>: the own entry, or else the inherited member, or else
  \<open>undefined\<close>.
\<close>

datatype property = Own WorkerState | Inherited | Absent

definition get_worker :: "string \<Rightarrow> dashboard \<Rightarrow> property" where
  "get_worker i d =
     (case map_of (allWorkerStates d) i of
        Some w \<Rightarrow> Own w
      | None \<Rightarrow> if ordinary_name i then Absent else Inherited)"

text \<open>\<open>allWorkerStates[id] = w\<close> on a dashboard.\<close>

definition put_worker :: "string \<Rightarrow> WorkerState \<Rightarrow> dashboard \<Rightarrow> dashboard" where
  "put_worker i w d = d\<lparr>allWorkerStates := set_entry i w (allWorkerStates d)\<rparr>"

text \<open>
  \<open>allWorkerStates[id].field = ...\<close>. With an own entry the worker changes. With no
  entry and no inherited member the code reads a property of \<open>undefined\<close> and throws.
  With an inherited member the write lands on that member, an object of the runtime
  outside the dashboard: nothing is thrown and the dashboard stays as it is. The
  embedding does not follow what is written on such objects, nor a prototype that
  \<open>__proto__\<close> replaced; it describes the code as long as no script and no event uses
  the id \<open>__proto__\<close>.
\<close>

definition assign_worker ::
  "string \<Rightarrow> (WorkerState \<Rightarrow> WorkerState) \<Rightarrow> dashboard \<Rightarrow> js_error + dashboard" where
  "assign_worker i f d =
     (case get_worker i d of
        Own w \<Rightarrow> Inr (put_worker i (f w) d)
      | Inherited \<Rightarrow> Inr d
      | Absent \<Rightarrow> Inl TypeError)"

definition and_then :: "'e + 'a \<Rightarrow> ('a \<Rightarrow> 'e + 'b) \<Rightarrow> 'e + 'b" where
  "and_then r f = (case r of Inl e \<Rightarrow> Inl e | Inr x \<Rightarrow> f x)"

text \<open>The start of \<open>paint\<close>: every script gets a copy of the base state.\<close>

definition paint :: "string list \<Rightarrow> dashboard" where
  "paint scripts =
     foldl (\<lambda>d script. put_worker script WORKER_BASE_STATE d)
       \<lparr>port = None, hostname = None, protocol = [], startTimeMs = None, ips = [],
        consoleOutput = [], installOutput = [], isInstalling = False,
        missingWebModule = None, allWorkerStates = [], allFileBuilds = []\<rparr>
       scripts"

text \<open>\<open>if (!allWorkerStates[id])\<close>: only \<open>undefined\<close> is falsy here.\<close>

definition setupWorker :: "string \<Rightarrow> dashboard \<Rightarrow> dashboard" where
  "setupWorker i d =
     (if get_worker i d = Absent then put_worker i WORKER_BASE_STATE d else d)"

subsection \<open>The listeners\<close>

text \<open>
  One function per \<open>bus.on\<close>. Each listener but \<open>INSTALL_COMPLETE\<close> ends with \<open>repaint()\<close>,
  which reads the dashboard and writes to the terminal only; \<open>repaint\<close> is defined below.
\<close>

definition on_BUILD_FILE :: "(string \<Rightarrow> string) \<Rightarrow> string \<Rightarrow> bool \<Rightarrow> dashboard \<Rightarrow> dashboard" where
  "on_BUILD_FILE path_relative i isBuilding d =
     (if isBuilding
      then d\<lparr>allFileBuilds := List.insert (path_relative i) (allFileBuilds d)\<rparr>
      else d\<lparr>allFileBuilds := removeAll (path_relative i) (allFileBuilds d)\<rparr>)"

definition on_WORKER_START :: "string \<Rightarrow> phase nullable \<Rightarrow> dashboard \<Rightarrow> js_error + dashboard" where
  "on_WORKER_START i st d =
     assign_worker i (\<lambda>w. w\<lparr>state := js_or st (Value (''RUNNING'', ''yellow''))\<rparr>)
       (setupWorker i d)"

definition on_WORKER_MSG :: "string \<Rightarrow> string \<Rightarrow> dashboard \<Rightarrow> js_error + dashboard" where
  "on_WORKER_MSG i msg d =
     assign_worker i (\<lambda>w. w\<lparr>output' := output' w @ msg\<rparr>) (setupWorker i d)"

text \<open>
  The guard compares the string that \<open>typeof\<close> returns with the value \<open>undefined\<close>, under
  strict inequality.
\<close>

definition on_WORKER_UPDATE :: "string \<Rightarrow> phase nullable \<Rightarrow> dashboard \<Rightarrow> js_error + dashboard" where
  "on_WORKER_UPDATE i st d =
     (if Value (js_typeof st) \<noteq> Undefined
      then assign_worker i (\<lambda>w. w\<lparr>state := st\<rparr>) (setupWorker i d)
      else Inr d)"

definition on_WORKER_COMPLETE ::
  "string \<Rightarrow> error_value nullable \<Rightarrow> dashboard \<Rightarrow> js_error + dashboard" where
  "on_WORKER_COMPLETE i err d =
     and_then (assign_worker i (\<lambda>w. w\<lparr>state := Value (''DONE'', ''green'')\<rparr>) d) (\<lambda>d1.
     and_then (assign_worker i (\<lambda>w. w\<lparr>done' := True\<rparr>) d1) (\<lambda>d2.
     assign_worker i (\<lambda>w. w\<lparr>error := js_or (error w) err\<rparr>) d2))"

definition on_WORKER_RESET :: "string \<Rightarrow> dashboard \<Rightarrow> dashboard" where
  "on_WORKER_RESET i d = put_worker i WORKER_BASE_STATE d"

definition on_CONSOLE ::
  "('a \<Rightarrow> string) \<Rightarrow> string \<Rightarrow> 'a \<Rightarrow> dashboard \<Rightarrow> dashboard" where
  "on_CONSOLE util_format level args d =
     (if isInstalling d then
        (let msg = util_format args in
         if \<not> prefix ''[404] '' msg then d\<lparr>installOutput := installOutput d @ msg\<rparr> else d)
      else
        d\<lparr>consoleOutput :=
             consoleOutput d @ ''['' @ level @ ''] '' @ util_format args @ [CHR 0x0A]\<rparr>)"

definition on_INSTALLING :: "dashboard \<Rightarrow> dashboard" where
  "on_INSTALLING d = d\<lparr>isInstalling := True, installOutput := []\<rparr>"

text \<open>
  \<open>INSTALL_COMPLETE\<close> changes nothing at once: it hands a callback and a delay in
  milliseconds to \<open>setTimeout\<close>.
\<close>

datatype timer = SetTimeout "dashboard \<Rightarrow> dashboard" nat

definition install_complete_timeout :: "dashboard \<Rightarrow> dashboard" where
  "install_complete_timeout d =
     d\<lparr>missingWebModule := None, isInstalling := False,
       installOutput := [], consoleOutput := []\<rparr>"

definition on_INSTALL_COMPLETE :: "dashboard \<Rightarrow> dashboard \<times> timer" where
  "on_INSTALL_COMPLETE d = (d, SetTimeout install_complete_timeout 2000)"

definition on_MISSING_WEB_MODULE :: "string \<Rightarrow> module_data option \<Rightarrow> dashboard \<Rightarrow> dashboard" where
  "on_MISSING_WEB_MODULE i data d =
     (let d1 = (case (missingWebModule d, data) of
                  (None, Some dt) \<Rightarrow> d\<lparr>missingWebModule := Some (with_id i dt)\<rparr>
                | _ \<Rightarrow> d) in
      case missingWebModule d1 of
        None \<Rightarrow> d1
      | Some m \<Rightarrow>
          if id' m = i then
            (case data of
               None \<Rightarrow> d1\<lparr>missingWebModule := None\<rparr>
             | Some dt \<Rightarrow> d1\<lparr>missingWebModule := Some (with_id i dt)\<rparr>)
          else d1)"

record server_info =
  info_startTimeMs :: int
  info_hostname :: string
  info_port :: int
  info_protocol :: string
  info_ips :: "string list"

definition on_SERVER_START :: "server_info \<Rightarrow> dashboard \<Rightarrow> dashboard" where
  "on_SERVER_START info d =
     d\<lparr>startTimeMs := Some (info_startTimeMs info), hostname := Some (info_hostname info),
       port := Some (info_port info), protocol := info_protocol info, ips := info_ips info\<rparr>"

subsection \<open>The event queue\<close>

text \<open>
  The events of the bus with their payloads, and \<open>TIMEOUT\<close> for the moment a callback
  scheduled by \<open>INSTALL_COMPLETE\<close> runs. Node runs one listener at a time, to its end.
\<close>

datatype 'a event =
    BUILD_FILE string bool
  | WORKER_START string "phase nullable"
  | WORKER_MSG string string
  | WORKER_UPDATE string "phase nullable"
  | WORKER_COMPLETE string "error_value nullable"
  | WORKER_RESET string
  | CONSOLE string 'a
  | INSTALLING
  | INSTALL_COMPLETE
  | TIMEOUT
  | MISSING_WEB_MODULE string "module_data option"
  | SERVER_START server_info

fun emit ::
  "('a \<Rightarrow> string) \<Rightarrow> (string \<Rightarrow> string) \<Rightarrow> dashboard \<Rightarrow> 'a event \<Rightarrow> js_error + dashboard" where
  "emit fmt rel d (BUILD_FILE i b) = Inr (on_BUILD_FILE rel i b d)"
| "emit fmt rel d (WORKER_START i st) = on_WORKER_START i st d"
| "emit fmt rel d (WORKER_MSG i msg) = on_WORKER_MSG i msg d"
| "emit fmt rel d (WORKER_UPDATE i st) = on_WORKER_UPDATE i st d"
| "emit fmt rel d (WORKER_COMPLETE i err) = on_WORKER_COMPLETE i err d"
| "emit fmt rel d (WORKER_RESET i) = Inr (on_WORKER_RESET i d)"
| "emit fmt rel d (CONSOLE level args) = Inr (on_CONSOLE fmt level args d)"
| "emit fmt rel d INSTALLING = Inr (on_INSTALLING d)"
| "emit fmt rel d INSTALL_COMPLETE = Inr (fst (on_INSTALL_COMPLETE d))"
| "emit fmt rel d TIMEOUT = Inr (install_complete_timeout d)"
| "emit fmt rel d (MISSING_WEB_MODULE i data) = Inr (on_MISSING_WEB_MODULE i data d)"
| "emit fmt rel d (SERVER_START info) = Inr (on_SERVER_START info d)"

text \<open>
  The dashboard after an event, whether its listener returned or threw: the only
  listener that throws does so in its first statement, before it changed anything.
\<close>

definition dashboard_after ::
  "('a \<Rightarrow> string) \<Rightarrow> (string \<Rightarrow> string) \<Rightarrow> dashboard \<Rightarrow> 'a event \<Rightarrow> dashboard" where
  "dashboard_after fmt rel d e = (case emit fmt rel d e of Inl err \<Rightarrow> d | Inr d' \<Rightarrow> d')"

text \<open>A run of the queue stops at the first listener that throws.\<close>

fun run ::
  "('a \<Rightarrow> string) \<Rightarrow> (string \<Rightarrow> string) \<Rightarrow> dashboard \<Rightarrow> 'a event list \<Rightarrow> js_error + dashboard" where
  "run fmt rel d [] = Inr d"
| "run fmt rel d (e # es) = and_then (emit fmt rel d e) (\<lambda>d'. run fmt rel d' es)"

subsection \<open>\<open>repaint\<close>\<close>

text \<open>
  \<open>repaint\<close> is the list of the arguments of its \<open>process.stdout.write\<close> calls, in order.

  \<open>trim\<close> removes white space and line terminators at both ends. On the bytes of UTF-8
  these are the six of ASCII (TAB, LF, VT, FF, CR, SP), the two bytes of U+00A0, and the
  three bytes of U+1680, U+2000 to U+200A, U+2028, U+2029, U+202F, U+205F, U+3000 and
  U+FEFF. \<open>trim_start\<close> reads the bytes of a character in order, \<open>trim_start_rev\<close> reads
  them from the end of the string. \<open>reindent\<close> is \<open>replace(/\n/gm, '\n  ')\<close>.
\<close>

definition is_space :: "char \<Rightarrow> bool" where
  "is_space c = (c \<in> set [CHR 0x09, CHR 0x0A, CHR 0x0B, CHR 0x0C, CHR 0x0D, CHR 0x20])"

definition is_space2 :: "char \<Rightarrow> char \<Rightarrow> bool" where
  "is_space2 a b = (a = CHR 0xC2 \<and> b = CHR 0xA0)"

definition is_space3 :: "char \<Rightarrow> char \<Rightarrow> char \<Rightarrow> bool" where
  "is_space3 a b c =
     ((a = CHR 0xE1 \<and> b = CHR 0x9A \<and> c = CHR 0x80)
      \<or> (a = CHR 0xE2 \<and> b = CHR 0x80 \<and>
          c \<in> set [CHR 0x80, CHR 0x81, CHR 0x82, CHR 0x83, CHR 0x84, CHR 0x85, CHR 0x86,
                   CHR 0x87, CHR 0x88, CHR 0x89, CHR 0x8A, CHR 0xA8, CHR 0xA9, CHR 0xAF])
      \<or> (a = CHR 0xE2 \<and> b = CHR 0x81 \<and> c = CHR 0x9F)
      \<or> (a = CHR 0xE3 \<and> b = CHR 0x80 \<and> c = CHR 0x80)
      \<or> (a = CHR 0xEF \<and> b = CHR 0xBB \<and> c = CHR 0xBF))"

fun trim_start :: "string \<Rightarrow> string" where
  "trim_start [] = []"
| "trim_start [a] = (if is_space a then [] else [a])"
| "trim_start [a, b] =
     (if is_space a then trim_start [b] else if is_space2 a b then [] else [a, b])"
| "trim_start (a # b # c # s) =
     (if is_space a then trim_start (b # c # s)
      else if is_space2 a b then trim_start (c # s)
      else if is_space3 a b c then trim_start s
      else a # b # c # s)"

fun trim_start_rev :: "string \<Rightarrow> string" where
  "trim_start_rev [] = []"
| "trim_start_rev [a] = (if is_space a then [] else [a])"
| "trim_start_rev [b, a] =
     (if is_space b then trim_start_rev [a] else if is_space2 a b then [] else [b, a])"
| "trim_start_rev (c # b # a # s) =
     (if is_space c then trim_start_rev (b # a # s)
      else if is_space2 b c then trim_start_rev (a # s)
      else if is_space3 a b c then trim_start_rev s
      else c # b # a # s)"

definition trim :: "string \<Rightarrow> string" where
  "trim s = rev (trim_start_rev (rev (trim_start s)))"

definition reindent :: "string \<Rightarrow> string" where
  "reindent s = concat (map (\<lambda>c. if c = CHR 0x0A then [CHR 0x0A, CHR 0x20, CHR 0x20] else [c]) s)"

definition nl2 :: string where
  "nl2 = [CHR 0x0A, CHR 0x0A]"

text \<open>The triangle of the section headers (U+25BC), the bullet (U+2022), the ellipsis (U+2026).\<close>

definition triangle :: string where
  "triangle = [CHR 0xE2, CHR 0x96, CHR 0xBC]"

definition bullet :: string where
  "bullet = [CHR 0xE2, CHR 0x80, CHR 0xA2]"

definition ellipsis :: string where
  "ellipsis = [CHR 0xE2, CHR 0x80, CHR 0xA6]"

definition clear_page :: "bool \<Rightarrow> markup list" where
  "clear_page win32 =
     [Str (if win32 then CHR 0x1B # ''[2J'' @ CHR 0x1B # ''[0f''
           else CHR 0x1B # ''[2J'' @ CHR 0x1B # ''[3J'' @ CHR 0x1B # ''[H'')]"

definition repaint_console :: "dashboard \<Rightarrow> markup list" where
  "repaint_console d =
     (if consoleOutput d \<noteq> [] then
        [Cat [Underline (Bold (Str (triangle @ '' Console''))), Str nl2],
         Str (reindent (trim (consoleOutput d))),
         Str nl2]
      else [])"

text \<open>The body of the loop over \<open>Object.entries(allWorkerStates)\<close>.\<close>

definition worker_header :: "string \<Rightarrow> WorkerState \<Rightarrow> markup" where
  "worker_header script workerState =
     (let colorsFn = (if isArray (error workerState) then Red else Reset) in
      Cat [colorsFn (Underline (Bold (Str (triangle @ '' '' @ script)))), Str nl2])"

definition repaint_worker :: "string \<times> WorkerState \<Rightarrow> markup list" where
  "repaint_worker entry =
     (case entry of (script, workerState) \<Rightarrow>
        if output' workerState \<noteq> [] then
          [worker_header script workerState,
           Str (reindent (trim (output' workerState))),
           Str nl2]
        else [])"

definition repaint_workers :: "dashboard \<Rightarrow> markup list" where
  "repaint_workers d = concat (map repaint_worker (allWorkerStates d))"

definition server_url :: "dashboard \<Rightarrow> string \<Rightarrow> markup" where
  "server_url d host =
     Bold (Cyan (Cat [Str (protocol d), Str ''//'', Str host, Str '':'',
                      (case port d of None \<Rightarrow> Str ''undefined'' | Some p \<Rightarrow> Num p)]))"

definition isServerStarted :: "dashboard \<Rightarrow> bool" where
  "isServerStarted d =
     ((case startTimeMs d of None \<Rightarrow> False | Some t \<Rightarrow> t > 0) \<and>
      (case port d of None \<Rightarrow> False | Some p \<Rightarrow> p > 0) \<and>
      protocol d \<noteq> [])"

definition repaint_server :: "dashboard \<Rightarrow> markup list" where
  "repaint_server d =
     (if isServerStarted d then
        [Cat [Str ''  '',
              server_url d (case hostname d of None \<Rightarrow> ''undefined'' | Some h \<Rightarrow> h)]] @
        map (\<lambda>ip. Cat [Cyan (Str ('' '' @ bullet @ '' '')), server_url d ip]) (ips d) @
        [Str [CHR 0x0A],
         Dim (case startTimeMs d of
                None \<Rightarrow> Str ''  Server started.''
              | Some t \<Rightarrow>
                  if t < 1000 then Cat [Str ''  Server started in '', Num t, Str ''ms.'']
                  else Str ''  Server started.'')] @
        (if length (allFileBuilds d) > 0 then [Dim (Str '' Building...'')] else []) @
        [Str nl2]
      else
        [Cat [Dim (Str (''  Server starting'' @ ellipsis)), Str nl2]])"

definition repaint_install :: "dashboard \<Rightarrow> markup list" where
  "repaint_install d =
     (if isInstalling d then
        [Cat [Underline (Bold (Str (triangle @ '' snowpack install''))), Str nl2],
         Str (''  '' @ reindent (trim (installOutput d))),
         Str nl2]
      else [])"

definition repaint :: "bool \<Rightarrow> dashboard \<Rightarrow> markup list" where
  "repaint win32 d =
     clear_page win32 @ repaint_console d @ repaint_workers d @
     [Cat [Bold (Str ''Snowpack''), Str nl2]] @ repaint_server d @ repaint_install d"

subsection \<open>Observations used in the statements\<close>

text \<open>
  The entry of a worker, the names of the entries in the order of \<open>Object.entries\<close>, and
  the worker ids an event refers to.
\<close>

abbreviation worker_of :: "dashboard \<Rightarrow> string \<Rightarrow> WorkerState option" where
  "worker_of d i \<equiv> map_of (allWorkerStates d) i"

definition worker_names :: "dashboard \<Rightarrow> string list" where
  "worker_names d = map fst (allWorkerStates d)"

definition ensured :: "dashboard \<Rightarrow> string \<Rightarrow> WorkerState" where
  "ensured d i = (case worker_of d i of None \<Rightarrow> WORKER_BASE_STATE | Some w \<Rightarrow> w)"

fun worker_ids :: "'a event \<Rightarrow> string list" where
  "worker_ids (WORKER_START i st) = [i]"
| "worker_ids (WORKER_MSG i msg) = [i]"
| "worker_ids (WORKER_UPDATE i st) = [i]"
| "worker_ids (WORKER_COMPLETE i err) = [i]"
| "worker_ids (WORKER_RESET i) = [i]"
| "worker_ids _ = []"








section \<open>Properties\<close>

subsection \<open>The pattern of the answer\<close>

lemma canonicalize_upper:
  fixes c u :: char
  assumes "65 \<le> (of_char u :: nat)" and "(of_char u :: nat) \<le> 90"
  shows "canonicalize c = u \<longleftrightarrow>
         (of_char c :: nat) = of_char u \<or> (of_char c :: nat) = of_char u + 32"
proof -
  let ?n = "of_char c :: nat"
  have lt: "?n < 256" by (rule nat_of_char_less_256)
  have eq: "canonicalize c = u \<longleftrightarrow> (of_char (canonicalize c) :: nat) = of_char u"
    by (simp only: of_char_eq_iff)
  show ?thesis
  proof (cases "97 \<le> ?n \<and> ?n \<le> 122")
    case True
    have "?n - 32 < 256"
      using lt by arith
    then have m: "(?n - 32) mod 256 = ?n - 32"
      by (rule mod_less)
    have "canonicalize c = char_of (?n - 32)"
      using True by (simp add: canonicalize_def Let_def)
    then have "(of_char (canonicalize c) :: nat) = ?n - 32"
      by (simp only: of_char_of m)
    with True assms eq show ?thesis by arith
  next
    case False
    then have "canonicalize c = c"
      by (auto simp add: canonicalize_def Let_def)
    with False assms eq show ?thesis by auto
  qed
qed

lemma canonicalize_n: "canonicalize c = canonicalize CHR ''n'' \<longleftrightarrow> c = CHR ''n'' \<or> c = CHR ''N''"
proof -
  have u: "canonicalize CHR ''n'' = CHR ''N''" by code_simp
  have a: "(of_char c :: nat) = 78 \<longleftrightarrow> c = CHR ''N''"
    using of_char_eq_iff [of c "CHR ''N''", where ?'a = nat] by simp
  have b: "(of_char c :: nat) = 110 \<longleftrightarrow> c = CHR ''n''"
    using of_char_eq_iff [of c "CHR ''n''", where ?'a = nat] by simp
  show ?thesis
    using canonicalize_upper [of "CHR ''N''" c] a b by (auto simp add: u)
qed

lemma canonicalize_o: "canonicalize c = canonicalize CHR ''o'' \<longleftrightarrow> c = CHR ''o'' \<or> c = CHR ''O''"
proof -
  have u: "canonicalize CHR ''o'' = CHR ''O''" by code_simp
  have a: "(of_char c :: nat) = 79 \<longleftrightarrow> c = CHR ''O''"
    using of_char_eq_iff [of c "CHR ''O''", where ?'a = nat] by simp
  have b: "(of_char c :: nat) = 111 \<longleftrightarrow> c = CHR ''o''"
    using of_char_eq_iff [of c "CHR ''o''", where ?'a = nat] by simp
  show ?thesis
    using canonicalize_upper [of "CHR ''O''" c] a b by (auto simp add: u)
qed

lemma match_lit_o: "[] \<in> set (rx_match (Lit CHR ''o'') s) \<longleftrightarrow> s = ''o'' \<or> s = ''O''"
  by (cases s) (auto simp add: canonicalize_o)

lemma match_lit_n:
  "rx_match (Lit CHR ''n'') (x # xs) = (if x = CHR ''n'' \<or> x = CHR ''N'' then [xs] else [])"
  by (simp add: canonicalize_n)

lemma no_pattern_language:
  "rx_test_anchored no_pattern a \<longleftrightarrow> a \<in> {''n'', ''N'', ''no'', ''nO'', ''No'', ''NO''}"
proof (cases a)
  case Nil
  then show ?thesis by (simp add: rx_test_anchored_def no_pattern_def)
next
  case (Cons x xs)
  have "rx_test_anchored no_pattern (x # xs) \<longleftrightarrow>
        (x = CHR ''n'' \<or> x = CHR ''N'') \<and> (xs = [] \<or> xs = ''o'' \<or> xs = ''O'')"
    using match_lit_o [of xs]
    by (auto simp add: rx_test_anchored_def no_pattern_def match_lit_n simp del: rx_match.simps(2))
  with Cons show ?thesis by auto
qed

subsection \<open>Entries of \<open>allWorkerStates\<close>\<close>

lemma map_of_insert_entry:
  "map_of ps k = None \<Longrightarrow> map_of (insert_entry k v ps) = (map_of ps)(k \<mapsto> v)"
  by (induction ps) (auto simp add: fun_eq_iff split: if_splits)

lemma keys_insert_entry: "fst ` set (insert_entry k v ps) = insert k (fst ` set ps)"
  by (induction ps) auto


lemma subseq_insert_entry: "subseq (map fst ps) (map fst (insert_entry k v ps))"
  by (induction ps) auto

lemma map_of_set_entry:
  "map_of (set_entry k v ps) k' =
     (if k' = k \<and> (map_of ps k \<noteq> None \<or> k \<noteq> ''__proto__'') then Some v else map_of ps k')"
  by (auto simp add: set_entry_def AList.update_conv' map_of_insert_entry)

lemma names_set_entry_present:
  "map_of ps k \<noteq> None \<Longrightarrow> map fst (set_entry k v ps) = map fst ps"
  by (auto simp add: set_entry_def AList.update_keys map_of_eq_None_iff)

lemma subseq_set_entry: "subseq (map fst ps) (map fst (set_entry k v ps))"
  by (auto simp add: set_entry_def AList.update_keys subseq_insert_entry)

lemma keys_set_entry_sub: "set (map fst (set_entry k v ps)) \<subseteq> insert k (set (map fst ps))"
  by (auto simp add: set_entry_def AList.dom_update keys_insert_entry split: if_splits)


lemma set_entry_twice:
  "map_of ps k \<noteq> None \<Longrightarrow> set_entry k a (set_entry k b ps) = set_entry k a ps"
  by (simp add: set_entry_def AList.update_conv')

lemma ordinary_not_proto: "ordinary_name i \<Longrightarrow> i \<noteq> ''__proto__''"
  by (auto simp add: ordinary_name_def inherited_names_def)

lemma worker_of_put:
  "worker_of (put_worker i w d) j =
     (if j = i \<and> (worker_of d i \<noteq> None \<or> i \<noteq> ''__proto__'') then Some w else worker_of d j)"
  by (simp add: put_worker_def map_of_set_entry)

lemma names_put_present:
  "worker_of d i \<noteq> None \<Longrightarrow> worker_names (put_worker i w d) = worker_names d"
  by (simp add: put_worker_def worker_names_def names_set_entry_present)

lemma subseq_put: "subseq (worker_names d) (worker_names (put_worker i w d))"
  by (simp add: put_worker_def worker_names_def subseq_set_entry)

lemma names_put_sub: "set (worker_names (put_worker i w d)) \<subseteq> insert i (set (worker_names d))"
  using keys_set_entry_sub [of i w "allWorkerStates d"]
  by (simp add: put_worker_def worker_names_def)


lemma put_put:
  "worker_of d i \<noteq> None \<Longrightarrow> put_worker i a (put_worker i b d) = put_worker i a d"
  by (simp add: put_worker_def set_entry_twice)

lemma worker_of_None_iff: "worker_of d i = None \<longleftrightarrow> i \<notin> set (worker_names d)"
  by (simp add: worker_names_def map_of_eq_None_iff)

lemma get_worker_Own: "worker_of d i = Some w \<Longrightarrow> get_worker i d = Own w"
  by (simp add: get_worker_def)

lemma get_worker_Absent: "ordinary_name i \<Longrightarrow> worker_of d i = None \<Longrightarrow> get_worker i d = Absent"
  by (simp add: get_worker_def)

lemma get_worker_cases:
  "get_worker i d = Absent \<and> worker_of d i = None
   \<or> get_worker i d = Inherited \<and> worker_of d i = None
   \<or> (\<exists>w. get_worker i d = Own w \<and> worker_of d i = Some w)"
  by (auto simp add: get_worker_def split: option.splits)

lemma worker_of_setup:
  "ordinary_name i \<Longrightarrow>
   worker_of (setupWorker i d) j =
     (if j = i \<and> worker_of d i = None then Some WORKER_BASE_STATE else worker_of d j)"
  by (auto simp add: setupWorker_def get_worker_def worker_of_put ordinary_not_proto
           split: option.splits)

lemma worker_of_setup_same:
  "ordinary_name i \<Longrightarrow> worker_of (setupWorker i d) i = Some (ensured d i)"
  by (auto simp add: worker_of_setup ensured_def)

lemma setup_names:
  "subseq (worker_names d) (worker_names (setupWorker i d))
   \<and> set (worker_names (setupWorker i d)) \<subseteq> insert i (set (worker_names d))"
  using names_put_sub [of i WORKER_BASE_STATE d]
  by (auto simp add: setupWorker_def subseq_put)

lemma assign_worker_Some:
  "worker_of d i = Some w \<Longrightarrow> assign_worker i f d = Inr (put_worker i (f w) d)"
  by (simp add: assign_worker_def get_worker_Own)

lemma assign_worker_Absent: "get_worker i d = Absent \<Longrightarrow> assign_worker i f d = Inl TypeError"
  by (simp add: assign_worker_def)

lemma assign_names:
  "assign_worker i f d = Inr d' \<Longrightarrow> worker_names d' = worker_names d"
  using get_worker_cases [of i d]
  by (auto simp add: assign_worker_def names_put_present)

lemma assign_after_setup:
  "ordinary_name i \<Longrightarrow>
   assign_worker i f (setupWorker i d) = Inr (put_worker i (f (ensured d i)) (setupWorker i d))"
  by (rule assign_worker_Some) (rule worker_of_setup_same)

lemma on_WORKER_START_eq:
  "ordinary_name i \<Longrightarrow>
   on_WORKER_START i st d =
     Inr (put_worker i ((ensured d i)\<lparr>state := js_or st (Value (''RUNNING'', ''yellow''))\<rparr>)
            (setupWorker i d))"
  by (simp add: on_WORKER_START_def assign_after_setup)


lemma on_WORKER_UPDATE_eq:
  "ordinary_name i \<Longrightarrow>
   on_WORKER_UPDATE i st d = Inr (put_worker i ((ensured d i)\<lparr>state := st\<rparr>) (setupWorker i d))"
  by (simp add: on_WORKER_UPDATE_def assign_after_setup)

lemma on_WORKER_COMPLETE_Some:
  assumes "worker_of d i = Some w"
  shows "on_WORKER_COMPLETE i err d =
     Inr (put_worker i (w\<lparr>state := Value (''DONE'', ''green''), done' := True,
                          error := js_or (error w) err\<rparr>) d)"
  using assms
  by (simp add: on_WORKER_COMPLETE_def and_then_def assign_worker_Some worker_of_put put_put)


lemma on_WORKER_COMPLETE_Inherited:
  "get_worker i d = Inherited \<Longrightarrow> on_WORKER_COMPLETE i err d = Inr d"
  by (simp add: on_WORKER_COMPLETE_def and_then_def assign_worker_def)

lemma worker_of_put_setup:
  "ordinary_name i \<Longrightarrow>
   worker_of (put_worker i w (setupWorker i d)) j = (if j = i then Some w else worker_of d j)"
  by (simp add: worker_of_put worker_of_setup ordinary_not_proto)

lemma names_unrelated:
  "worker_names (on_BUILD_FILE rel i b d) = worker_names d"
  "worker_names (on_CONSOLE fmt level args d) = worker_names d"
  "worker_names (on_INSTALLING d) = worker_names d"
  "worker_names (fst (on_INSTALL_COMPLETE d)) = worker_names d"
  "worker_names (install_complete_timeout d) = worker_names d"
  "worker_names (on_MISSING_WEB_MODULE i data d) = worker_names d"
  "worker_names (on_SERVER_START info d) = worker_names d"
  by (simp_all add: worker_names_def on_BUILD_FILE_def on_CONSOLE_def Let_def on_INSTALLING_def
        on_INSTALL_COMPLETE_def install_complete_timeout_def on_MISSING_WEB_MODULE_def
        on_SERVER_START_def split: option.splits)

lemma and_then_Inr: "and_then r f = Inr y \<longleftrightarrow> (\<exists>x. r = Inr x \<and> f x = Inr y)"
  by (cases r) (simp_all add: and_then_def)

lemma assign_after_setup_names:
  assumes "assign_worker i f (setupWorker i d) = Inr d'"
  shows "subseq (worker_names d) (worker_names d')
         \<and> set (worker_names d') \<subseteq> insert i (set (worker_names d))"
  using assign_names [OF assms] setup_names [of d i] by simp

lemma complete_names:
  assumes "on_WORKER_COMPLETE i err d = Inr d'"
  shows "worker_names d' = worker_names d"
proof -
  from assms obtain d1 d2 where
    "assign_worker i (\<lambda>w. w\<lparr>state := Value (''DONE'', ''green'')\<rparr>) d = Inr d1"
    "assign_worker i (\<lambda>w. w\<lparr>done' := True\<rparr>) d1 = Inr d2"
    "assign_worker i (\<lambda>w. w\<lparr>error := js_or (error w) err\<rparr>) d2 = Inr d'"
    by (auto simp add: on_WORKER_COMPLETE_def and_then_Inr)
  then show ?thesis
    by (simp add: assign_names)
qed

lemma emit_names:
  assumes "emit fmt rel d e = Inr d'"
  shows "subseq (worker_names d) (worker_names d')
         \<and> set (worker_names d') \<subseteq> set (worker_names d) \<union> set (worker_ids e)"
proof (cases e)
  case (WORKER_START i st)
  with assms show ?thesis
    using assign_after_setup_names [of i _ d d'] by (simp add: on_WORKER_START_def)
next
  case (WORKER_MSG i msg)
  with assms show ?thesis
    using assign_after_setup_names [of i _ d d'] by (simp add: on_WORKER_MSG_def)
next
  case (WORKER_UPDATE i st)
  with assms show ?thesis
    using assign_after_setup_names [of i _ d d'] by (simp add: on_WORKER_UPDATE_def)
next
  case (WORKER_COMPLETE i err)
  with assms show ?thesis
    by (auto simp add: complete_names)
next
  case (WORKER_RESET i)
  with assms show ?thesis
    using names_put_sub [of i WORKER_BASE_STATE d] by (auto simp add: on_WORKER_RESET_def subseq_put)
qed (use assms in \<open>auto simp add: names_unrelated\<close>)

lemma after_names:
  "subseq (worker_names d) (worker_names (dashboard_after fmt rel d e))
   \<and> set (worker_names (dashboard_after fmt rel d e)) \<subseteq> set (worker_names d) \<union> set (worker_ids e)"
proof (cases "emit fmt rel d e")
  case (Inl err)
  then show ?thesis by (simp add: dashboard_after_def)
next
  case (Inr d')
  with emit_names [OF Inr] show ?thesis by (simp add: dashboard_after_def)
qed

lemma queue_names:
  "set (worker_names (foldl (dashboard_after fmt rel) d es))
     \<subseteq> set (worker_names d) \<union> set (concat (map worker_ids es))"
proof (induction es arbitrary: d)
  case Nil
  show ?case by simp
next
  case (Cons e es)
  from after_names [of d fmt rel e] Cons.IH [of "dashboard_after fmt rel d e"]
  show ?case by auto
qed

lemma names_paint_aux:
  "set (worker_names (foldl (\<lambda>d script. put_worker script WORKER_BASE_STATE d) d0 scripts))
     \<subseteq> set (worker_names d0) \<union> set scripts"
proof (induction scripts arbitrary: d0)
  case Nil
  show ?case by simp
next
  case (Cons s scripts)
  from names_put_sub [of s WORKER_BASE_STATE d0] Cons.IH [of "put_worker s WORKER_BASE_STATE d0"]
  show ?case by auto
qed

lemma names_paint_sub: "set (worker_names (paint scripts)) \<subseteq> set scripts"
proof -
  let ?d0 = "\<lparr>port = None, hostname = None, protocol = [], startTimeMs = None, ips = [],
        consoleOutput = [], installOutput = [], isInstalling = False,
        missingWebModule = None, allWorkerStates = [], allFileBuilds = []\<rparr>"
  have "worker_names ?d0 = []"
    by (simp add: worker_names_def)
  with names_paint_aux [of ?d0 scripts] show ?thesis
    by (simp add: paint_def)
qed






subsection \<open>The output of a worker\<close>
















lemma ordinary_run_tsc: "ordinary_name ''run:tsc''"
  by (simp add: ordinary_name_def inherited_names_def)

lemma queue_subseq:
  "subseq (worker_names d) (worker_names (foldl (dashboard_after fmt rel) d es))"
proof (induction es arbitrary: d)
  case Nil
  show ?case by simp
next
  case (Cons e es)
  from after_names [of d fmt rel e] Cons.IH [of "dashboard_after fmt rel d e"]
  show ?case by (auto intro: subseq_order.trans)
qed

section \<open>The claims of the specification\<close>

subsection \<open>Worker events\<close>

text \<open>
  Claim C1: every listener of a worker event first creates the base state for an id that has
  no entry, so that no listener faults, and \<open>WORKER_COMPLETE\<close> for an id never seen leaves
  the worker done with phase \<open>("DONE", "green")\<close>.

  The listeners of \<open>WORKER_START\<close>, \<open>WORKER_MSG\<close> and \<open>WORKER_UPDATE\<close> call \<open>setupWorker\<close>;
  the listener of \<open>WORKER_COMPLETE\<close> does not. For an id without entry its first
  assignment reads a property of \<open>undefined\<close> and throws.
\<close>

theorem worker_complete_unknown_id_throws:
  "on_WORKER_COMPLETE ''run:tsc'' Undefined (paint []) = Inl TypeError
   \<and> run fmt rel (paint []) [WORKER_COMPLETE ''run:tsc'' Undefined] = Inl TypeError"
  by (simp add: on_WORKER_COMPLETE_def paint_def assign_worker_def and_then_def
        get_worker_def ordinary_name_def inherited_names_def)

text \<open>
  Claim C2: a \<open>WORKER_UPDATE\<close> with a phase stores it, and one without a phase leaves the
  phase of the worker as it was.

  The guard \<open>typeof state !== undefined\<close> holds for every payload, so an update without a
  phase stores \<open>undefined\<close> over the phase the worker had.
\<close>

theorem worker_update_without_phase_overwrites:
  "\<exists>d1 d2. on_WORKER_START ''run:tsc'' (Value (''BUILDING'', ''yellow'')) (paint []) = Inr d1
     \<and> map_option state (worker_of d1 ''run:tsc'') = Some (Value (''BUILDING'', ''yellow''))
     \<and> on_WORKER_UPDATE ''run:tsc'' Undefined d1 = Inr d2
     \<and> map_option state (worker_of d2 ''run:tsc'') = Some Undefined"
  by (simp add: on_WORKER_START_eq on_WORKER_UPDATE_eq worker_of_put_setup js_or_def
        ordinary_run_tsc)

text \<open>
  Claim C8: of two \<open>WORKER_COMPLETE\<close> events for a worker, the first with error \<open>E1\<close> and the
  second with \<open>E2\<close>, the stored error is \<open>E1\<close>: the listener sets the error only when none
  was set before.

  For a worker that has an entry, one event keeps an error already stored and stores its
  own otherwise; so of two events for a worker without error the first one's error stays.
\<close>

theorem worker_complete_first_error_wins:
  assumes "worker_of d i = Some w"
  shows "(\<exists>d1 w1. on_WORKER_COMPLETE i err d = Inr d1 \<and> worker_of d1 i = Some w1
            \<and> error w1 = (if truthy (error w) then error w else err))
       \<and> (\<not> truthy (error w) \<longrightarrow>
            (\<exists>d1 d2 w2. on_WORKER_COMPLETE i (Value e1) d = Inr d1
               \<and> on_WORKER_COMPLETE i (Value e2) d1 = Inr d2
               \<and> worker_of d2 i = Some w2 \<and> error w2 = Value e1))"
  using assms
  by (simp add: on_WORKER_COMPLETE_Some worker_of_put js_or_def)

theorem worker_complete_first_error_wins_witness:
  "worker_of (paint [''run:tsc'']) ''run:tsc'' = Some WORKER_BASE_STATE
   \<and> \<not> truthy (error WORKER_BASE_STATE)
   \<and> (\<exists>d1 d2 w2.
         on_WORKER_COMPLETE ''run:tsc'' (Value (ErrorObject ''E1'')) (paint [''run:tsc'']) = Inr d1
         \<and> on_WORKER_COMPLETE ''run:tsc'' (Value (ErrorObject ''E2'')) d1 = Inr d2
         \<and> worker_of d2 ''run:tsc'' = Some w2 \<and> error w2 = Value (ErrorObject ''E1''))"
proof -
  have w: "worker_of (paint [''run:tsc'']) ''run:tsc'' = Some WORKER_BASE_STATE"
    by (simp add: paint_def worker_of_put)
  have n: "\<not> truthy (error WORKER_BASE_STATE)"
    by (simp add: WORKER_BASE_STATE_def)
  from worker_complete_first_error_wins [OF w, of Undefined "ErrorObject ''E1''" "ErrorObject ''E2''"]
    w n show ?thesis by blast
qed

text \<open>
  Claim C4: no entry exists for a name until the first event that refers to it, and an entry
  once created is never removed; \<open>WORKER_RESET\<close> replaces the value in place and keeps the
  position of the worker in the order of iteration.

  \<open>paint\<close> creates an entry for each of its scripts before any event arrives.
\<close>

theorem scripts_have_entries_at_start:
  "worker_of (paint [''run:tsc'']) ''run:tsc'' = Some WORKER_BASE_STATE"
  by (simp add: paint_def worker_of_put)

text \<open>
  Claim C4, amended: a name has an entry only if it is one of the scripts given to \<open>paint\<close>
  or an event that refers to it has been processed; an entry once created is never
  removed, and the entries keep their order; \<open>WORKER_RESET\<close> for a name that has an entry
  stores the base state in place and leaves the order of the entries as it is.

  The first two parts hold after every queue of events, whether or not a listener threw
  on the way; the second from every dashboard.
\<close>

theorem worker_entries_lifecycle:
  "(n \<in> set (worker_names (foldl (dashboard_after fmt rel) (paint scripts) es)) \<longrightarrow>
      n \<in> set scripts \<or> n \<in> set (concat (map worker_ids es)))
   \<and> subseq (worker_names d) (worker_names (foldl (dashboard_after fmt rel) d es))
   \<and> (i \<in> set (worker_names d) \<longrightarrow>
        worker_names (on_WORKER_RESET i d) = worker_names d
        \<and> worker_of (on_WORKER_RESET i d) i = Some WORKER_BASE_STATE)"
proof (intro conjI impI)
  assume "n \<in> set (worker_names (foldl (dashboard_after fmt rel) (paint scripts) es))"
  with queue_names [of fmt rel "paint scripts" es] names_paint_sub [of scripts]
  show "n \<in> set scripts \<or> n \<in> set (concat (map worker_ids es))"
    by blast
next
  show "subseq (worker_names d) (worker_names (foldl (dashboard_after fmt rel) d es))"
    by (rule queue_subseq)
next
  assume "i \<in> set (worker_names d)"
  then have p: "worker_of d i \<noteq> None"
    by (simp add: worker_of_None_iff)
  then show "worker_names (on_WORKER_RESET i d) = worker_names d"
    by (simp add: on_WORKER_RESET_def names_put_present)
  from p show "worker_of (on_WORKER_RESET i d) i = Some WORKER_BASE_STATE"
    by (simp add: on_WORKER_RESET_def worker_of_put)
qed

theorem worker_entries_lifecycle_witness:
  "worker_names (paint [''build'', ''1'']) = [''1'', ''build'']
   \<and> worker_names (foldl (dashboard_after concat (\<lambda>p. p)) (paint [''build'', ''1''])
        [WORKER_COMPLETE ''run:tsc'' Null, WORKER_MSG ''0'' ''x''])
       = [''0'', ''1'', ''build'']
   \<and> ''0'' \<in> set (concat (map worker_ids
        ([WORKER_COMPLETE ''run:tsc'' Null, WORKER_MSG ''0'' ''x''] :: string list event list)))
   \<and> worker_names (on_WORKER_RESET ''build''
        (foldl (dashboard_after concat (\<lambda>p. p)) (paint [''build'', ''1''])
           [WORKER_COMPLETE ''run:tsc'' Null, WORKER_MSG ''0'' ''x'']))
       = [''0'', ''1'', ''build'']
   \<and> worker_of (on_WORKER_RESET ''build''
        (foldl (dashboard_after concat (\<lambda>p. p)) (paint [''build'', ''1''])
           [WORKER_COMPLETE ''run:tsc'' Null, WORKER_MSG ''0'' ''x''])) ''build''
       = Some WORKER_BASE_STATE"
proof -
  let ?es = "[WORKER_COMPLETE ''run:tsc'' Null, WORKER_MSG ''0'' ''x''] :: string list event list"
  let ?d = "foldl (dashboard_after concat (\<lambda>p. p)) (paint [''build'', ''1'']) ?es"
  have i1: "array_index ''1'' = Some 1" and i0: "array_index ''0'' = Some 0"
    and ib: "array_index ''build'' = None"
    by (simp_all add: array_index_def is_digit_def decimal_def)
  have p: "worker_names (paint [''build'', ''1'']) = [''1'', ''build'']"
    by (simp add: paint_def put_worker_def worker_names_def set_entry_def comes_before_def
          i1 ib)
  have n: "worker_names ?d = [''0'', ''1'', ''build'']"
    by (simp add: paint_def put_worker_def worker_names_def set_entry_def comes_before_def
          i0 i1 ib dashboard_after_def on_WORKER_COMPLETE_def on_WORKER_MSG_def
          assign_worker_def and_then_def setupWorker_def get_worker_def ordinary_name_def
          inherited_names_def)
  from worker_entries_lifecycle [of "''0''" concat "\<lambda>p. p" "[''build'', ''1'']" ?es ?d "''build''"]
    p n show ?thesis
    by simp
qed



subsection \<open>The renderer\<close>

text \<open>
  Claim C3: for each worker with output, in the order of the entries, the renderer prints a
  header that is red when the error of the worker is set and of the default colour when
  it is not.

  The colour is chosen by \<open>Array.isArray(workerState.error)\<close>, and an \<open>Error\<close> is not an
  array: the header of a worker that completed with an \<open>Error\<close> is printed with
  \<open>colors.reset\<close>.
\<close>

theorem worker_header_not_red_for_error:
  "\<exists>d. run fmt rel (paint [])
          [WORKER_MSG ''run:tsc'' ''boom'',
           WORKER_COMPLETE ''run:tsc'' (Value (ErrorObject ''boom''))] = Inr d
     \<and> map_option error (worker_of d ''run:tsc'') = Some (Value (ErrorObject ''boom''))
     \<and> repaint_workers d =
         [Cat [Reset (Underline (Bold (Str (triangle @ '' run:tsc'')))), Str nl2],
          Str ''boom'', Str nl2]"
  by (simp add: paint_def put_worker_def on_WORKER_MSG_def on_WORKER_COMPLETE_def
        setupWorker_def assign_worker_def and_then_def WORKER_BASE_STATE_def js_or_def
        get_worker_def set_entry_def ordinary_run_tsc
        repaint_workers_def repaint_worker_def worker_header_def Let_def
        trim_def reindent_def is_space_def is_space2_def is_space3_def)

subsection \<open>The prompt for a missing module\<close>

text \<open>
  Claim C5: at most one prompt is active. After \<open>MISSING_WEB_MODULE\<close> for \<open>a\<close> with data and
  then for \<open>a\<close> without data there is no prompt; after \<open>MISSING_WEB_MODULE\<close> for \<open>a\<close> with
  data and then for another id \<open>b\<close> with data, the prompt of \<open>a\<close> is unchanged; and an event
  with data when no prompt is active installs its prompt.

  The dashboard has one slot for the prompt. The two sequences start where no prompt, or
  a prompt of \<open>a\<close>, is active, so that the first event makes the prompt of \<open>a\<close> the active
  one.
\<close>

theorem missing_module_prompt:
  "(missingWebModule d = None \<or> map_option id' (missingWebModule d) = Some a \<longrightarrow>
      missingWebModule (on_MISSING_WEB_MODULE a None (on_MISSING_WEB_MODULE a (Some d1) d)) = None)
   \<and> (missingWebModule d = None \<or> map_option id' (missingWebModule d) = Some a \<longrightarrow>
      b \<noteq> a \<longrightarrow>
      missingWebModule (on_MISSING_WEB_MODULE a (Some d1) d) = Some (with_id a d1)
      \<and> missingWebModule (on_MISSING_WEB_MODULE b (Some d2) (on_MISSING_WEB_MODULE a (Some d1) d))
          = Some (with_id a d1))
   \<and> (missingWebModule d = None \<longrightarrow>
      missingWebModule (on_MISSING_WEB_MODULE i (Some dt) d) = Some (with_id i dt))
   \<and> (missingWebModule (on_MISSING_WEB_MODULE i data d) = None
      \<or> missingWebModule (on_MISSING_WEB_MODULE i data d) = missingWebModule d
      \<or> (\<exists>dt. data = Some dt
            \<and> missingWebModule (on_MISSING_WEB_MODULE i data d) = Some (with_id i dt)))"
  by (cases d1; cases d2; cases dt)
     (auto simp add: on_MISSING_WEB_MODULE_def Let_def split: option.splits)

theorem missing_module_prompt_witness:
  "missingWebModule (paint []) = None
   \<and> ''b.js'' \<noteq> ''a.js''
   \<and> missingWebModule (on_MISSING_WEB_MODULE ''a.js'' None
        (on_MISSING_WEB_MODULE ''a.js'' (Some (ModuleData ''react'' ''react'')) (paint []))) = None
   \<and> missingWebModule (on_MISSING_WEB_MODULE ''b.js'' (Some (ModuleData ''vue'' ''vue''))
        (on_MISSING_WEB_MODULE ''a.js'' (Some (ModuleData ''react'' ''react'')) (paint [])))
       = Some \<lparr>id' = ''a.js'', spec = ''react'', pkgName = ''react''\<rparr>
   \<and> missingWebModule (on_MISSING_WEB_MODULE ''a.js'' (Some (ModuleData ''react'' ''react''))
        (paint []))
       = Some \<lparr>id' = ''a.js'', spec = ''react'', pkgName = ''react''\<rparr>"
proof -
  have n: "missingWebModule (paint []) = None"
    by (simp add: paint_def)
  from missing_module_prompt [of "paint []" "''a.js''" "ModuleData ''react'' ''react''"
        "''b.js''" "ModuleData ''vue'' ''vue''" "''a.js''" "ModuleData ''react'' ''react''"] n
  show ?thesis by simp
qed

subsection \<open>Console and install\<close>

text \<open>
  Claim C6: on a \<open>CONSOLE\<close> event, while installing, a formatted message that starts with
  \<open>"[404] "\<close> changes neither output, and any other message is appended to \<open>installOutput\<close>
  while \<open>consoleOutput\<close> stays; while not installing, \<open>"[level] "\<close>, the message and a newline
  are appended to \<open>consoleOutput\<close> while \<open>installOutput\<close> stays.
\<close>

theorem console_log_routing:
  "(isInstalling d \<and> prefix ''[404] '' (fmt args) \<longrightarrow>
      installOutput (on_CONSOLE fmt level args d) = installOutput d
      \<and> consoleOutput (on_CONSOLE fmt level args d) = consoleOutput d)
   \<and> (isInstalling d \<and> \<not> prefix ''[404] '' (fmt args) \<longrightarrow>
      installOutput (on_CONSOLE fmt level args d) = installOutput d @ fmt args
      \<and> consoleOutput (on_CONSOLE fmt level args d) = consoleOutput d)
   \<and> (\<not> isInstalling d \<longrightarrow>
      consoleOutput (on_CONSOLE fmt level args d)
        = consoleOutput d @ ''['' @ level @ ''] '' @ fmt args @ [CHR 0x0A]
      \<and> installOutput (on_CONSOLE fmt level args d) = installOutput d)"
  by (simp add: on_CONSOLE_def Let_def)

theorem console_log_routing_witness:
  "installOutput (on_CONSOLE concat ''info'' [''[404] '', ''missing.js''] (on_INSTALLING (paint []))) = []
   \<and> consoleOutput (on_CONSOLE concat ''info'' [''[404] '', ''missing.js''] (on_INSTALLING (paint []))) = []
   \<and> installOutput (on_CONSOLE concat ''info'' [''added '', ''react''] (on_INSTALLING (paint []))) = ''added react''
   \<and> consoleOutput (on_CONSOLE concat ''info'' [''added '', ''react''] (on_INSTALLING (paint []))) = []
   \<and> consoleOutput (on_CONSOLE concat ''info'' [''[404] '', ''missing.js''] (paint []))
        = ''[info] [404] missing.js'' @ [CHR 0x0A]
   \<and> installOutput (on_CONSOLE concat ''info'' [''[404] '', ''missing.js''] (paint [])) = []"
  using console_log_routing [of "on_INSTALLING (paint [])" concat "[''[404] '', ''missing.js'']" "''info''"]
        console_log_routing [of "on_INSTALLING (paint [])" concat "[''added '', ''react'']" "''info''"]
        console_log_routing [of "paint []" concat "[''[404] '', ''missing.js'']" "''info''"]
  by (simp add: on_INSTALLING_def paint_def)

text \<open>
  Claim C9: the callback that \<open>INSTALL_COMPLETE\<close> schedules with a delay of 2000 ms sets
  \<open>isInstalling\<close> to false and clears \<open>installOutput\<close>, \<open>consoleOutput\<close> and the prompt for a
  missing module, whatever the dashboard is when it runs.
\<close>

theorem install_complete_clears:
  "on_INSTALL_COMPLETE d = (d, SetTimeout install_complete_timeout 2000)
   \<and> isInstalling (install_complete_timeout d') = False
   \<and> installOutput (install_complete_timeout d') = []
   \<and> consoleOutput (install_complete_timeout d') = []
   \<and> missingWebModule (install_complete_timeout d') = None
   \<and> emit fmt rel d' TIMEOUT = Inr (install_complete_timeout d')"
  by (simp add: on_INSTALL_COMPLETE_def install_complete_timeout_def)

subsection \<open>The port\<close>

text \<open>
  Claim C7: when the probe returns another port than the one asked for and the session is
  interactive, \<open>getPort\<close> returns that port exactly when the answer does not match
  \<open>/^no?$/i\<close>, that is, for every answer but \<open>n\<close> and \<open>no\<close> in any case, the empty answer
  included; when the user declines, or the session is not interactive, it writes the
  fatal message to standard error and exits with status 1.

  The message is the red line that names the port asked for and the option \<open>--port\<close>,
  followed by an empty line.
\<close>

theorem getPort_alternate_port:
  assumes "detectPort defaultPort \<noteq> defaultPort"
  shows "(snd (getPort detectPort True answer defaultPort) = Returned (detectPort defaultPort)
            \<longleftrightarrow> \<not> rx_test_anchored no_pattern answer)
       \<and> (rx_test_anchored no_pattern answer
            \<longleftrightarrow> answer \<in> {''n'', ''N'', ''no'', ''nO'', ''No'', ''NO''})
       \<and> (answer \<in> {''n'', ''N'', ''no'', ''nO'', ''No'', ''NO''} \<longrightarrow>
            snd (getPort detectPort True answer defaultPort)
              = ProcessExit
                  [Red (Cat [Str ([CHR 0xE2, CHR 0x9C, CHR 0x98] @ '' Port ''),
                             Bold (Num defaultPort), Str '' not available. Use '',
                             Bold (Str ''--port''), Str '' to specify a different port.'']),
                   Str []] 1)
       \<and> snd (getPort detectPort False answer defaultPort)
              = ProcessExit
                  [Red (Cat [Str ([CHR 0xE2, CHR 0x9C, CHR 0x98] @ '' Port ''),
                             Bold (Num defaultPort), Str '' not available. Use '',
                             Bold (Str ''--port''), Str '' to specify a different port.'']),
                   Str []] 1"
  using assms
  by (auto simp add: getPort_def Let_def no_pattern_language port_fatal_def cross_def)

theorem getPort_alternate_port_witness:
  "(\<lambda>p. p + 1) (3000 :: int) \<noteq> 3000
   \<and> snd (getPort (\<lambda>p. p + 1) True [] 3000) = Returned 3001
   \<and> snd (getPort (\<lambda>p. p + 1) True ''y'' 3000) = Returned 3001
   \<and> snd (getPort (\<lambda>p. p + 1) True ''No'' 3000)
       = ProcessExit
           [Red (Cat [Str ([CHR 0xE2, CHR 0x9C, CHR 0x98] @ '' Port ''),
                      Bold (Num 3000), Str '' not available. Use '',
                      Bold (Str ''--port''), Str '' to specify a different port.'']),
            Str []] 1
   \<and> snd (getPort (\<lambda>p. p + 1) False ''y'' 3000)
       = ProcessExit
           [Red (Cat [Str ([CHR 0xE2, CHR 0x9C, CHR 0x98] @ '' Port ''),
                      Bold (Num 3000), Str '' not available. Use '',
                      Bold (Str ''--port''), Str '' to specify a different port.'']),
            Str []] 1"
  using getPort_alternate_port [of "\<lambda>p. p + 1" 3000 "[]"]
        getPort_alternate_port [of "\<lambda>p. p + 1" 3000 "''y''"]
        getPort_alternate_port [of "\<lambda>p. p + 1" 3000 "''No''"]
  by simp

end
